theory Spec2Isabelle
  imports Main "HOL-Library.Word"
begin

section \<open>The table plugin adapter of server/table.go\<close>

text \<open>
  The file wraps a value implementing the interface \<open>TablePlugin\<close> (a table name, a
  column list and a row generator) into the methods osquery's extension protocol calls:
  \<open>Name\<close>, \<open>RegistryName\<close>, \<open>Routes\<close>, \<open>Ping\<close>, \<open>Call\<close> and \<open>Shutdown\<close>.

  Conventions of the embedding:
  \<^item> a Go \<open>map[string]string\<close> is a map \<open>string \<rightharpoonup> string\<close>; reading a key that is
    absent gives the empty string, as Go's index expression does (\<open>map_index\<close>), and the
    two-valued form \<open>v, ok := m[k]\<close> is the map's own \<open>option\<close> result;
  \<^item> a slice that may be \<open>nil\<close> is a \<open>list option\<close> (\<open>None\<close> is \<open>nil\<close>), a pointer
    that may be \<open>nil\<close> an \<open>option\<close>, and a value of Go's \<open>error\<close> interface an
    \<open>error option\<close> (\<open>None\<close> is the \<open>nil\<close> error);
  \<^item> the methods of the wrapped plugin are arbitrary Go code, so each is a function
    from the plugin's state \<open>'s\<close> to its result and the new state, and every method of
    the adapter passes that state along. The methods are total functions: the theorems
    speak about calls in which the plugin's methods return;
  \<^item> \<open>context.Context\<close> is an opaque type \<open>'c\<close>, and the dynamic value an
    \<open>interface{}\<close> holds after JSON decoding is an opaque type \<open>'v\<close>: the query context
    is a \<open>'v option\<close>, with \<open>None\<close> the \<open>nil\<close> interface value.
\<close>

subsection \<open>Types of the generated package osquery\<close>

type_synonym ExtensionPluginRequest = "string \<rightharpoonup> string"

type_synonym ExtensionPluginResponse = "(string \<rightharpoonup> string) list option"

text \<open>
  Modelled from the spec: the declarations of \<open>ExtensionStatus\<close> and
  \<open>ExtensionResponse\<close> are in the generated package \<open>gen/osquery\<close>, which is not among
  the sources. A status is a code and a message, a response a status and an optional
  payload; these are also the only fields table.go sets. \<open>Code\<close> is a 32-bit
  integer (an \<open>int32\<close>, read with \<open>sint\<close>), \<open>Status\<close> a pointer.
\<close>

record ExtensionStatus =
  Code :: "32 word"
  Message :: string

record ExtensionResponse =
  Status :: "ExtensionStatus option"
  Response :: ExtensionPluginResponse

text \<open>
  Modelled from the spec: the package variable \<open>StatusOK\<close> is declared in another
  file of package server, which is not among the sources. The spec gives its value as
  the fixed OK status, code 0 with an empty message. No code of table.go assigns to it.
\<close>

definition StatusOK :: ExtensionStatus where
  "StatusOK = \<lparr>Code = 0, Message = ''''\<rparr>"

subsection \<open>Go's built-in operations used by the file\<close>

text \<open>The index expression \<open>m[k]\<close> on a \<open>map[string]string\<close>: the zero value for a missing key.\<close>

definition map_index :: "(string \<rightharpoonup> string) \<Rightarrow> string \<Rightarrow> string" where
  "map_index m k = (case m k of None \<Rightarrow> '''' | Some v \<Rightarrow> v)"

text \<open>A non-nil value of the interface \<open>error\<close>, and its method \<open>Error()\<close>.\<close>

datatype error = errorString string

fun Error :: "error \<Rightarrow> string" where
  "Error (errorString m) = m"

subsection \<open>Column definitions\<close>

type_synonym ColumnType = string

definition ColumnTypeString :: ColumnType where
  "ColumnTypeString = ''TEXT''"

definition ColumnTypeInteger :: ColumnType where
  "ColumnTypeInteger = ''INTEGER''"

record ColumnDefinition =
  Name :: string
  Type :: ColumnType

definition StringColumn :: "string \<Rightarrow> ColumnDefinition" where
  "StringColumn name = \<lparr>Name = name, Type = ColumnTypeString\<rparr>"

definition IntegerColumn :: "string \<Rightarrow> ColumnDefinition" where
  "IntegerColumn name = \<lparr>Name = name, Type = ColumnTypeInteger\<rparr>"

subsection \<open>The interface TablePlugin and its wrapper\<close>

record ('s, 'c, 'v) TablePlugin =
  TableName :: "'s \<Rightarrow> string \<times> 's"
  Columns :: "'s \<Rightarrow> ColumnDefinition list \<times> 's"
  Generate :: "'c \<Rightarrow> 'v option \<Rightarrow> 's \<Rightarrow> ((string \<rightharpoonup> string) list option \<times> error option) \<times> 's"

record ('s, 'c, 'v) tablePluginImpl =
  plugin :: "('s, 'c, 'v) TablePlugin"

definition NewTablePlugin :: "('s, 'c, 'v) TablePlugin \<Rightarrow> ('s, 'c, 'v) tablePluginImpl" where
  "NewTablePlugin p = \<lparr>plugin = p\<rparr>"

text \<open>
  The method \<open>Name\<close> of the wrapper; the plain name is the field of \<open>ColumnDefinition\<close>.
\<close>

definition tablePluginImpl_Name :: "('s, 'c, 'v) tablePluginImpl \<Rightarrow> 's \<Rightarrow> string \<times> 's" where
  "tablePluginImpl_Name t s = TableName (plugin t) s"

definition RegistryName :: "('s, 'c, 'v) tablePluginImpl \<Rightarrow> 's \<Rightarrow> string \<times> 's" where
  "RegistryName t s = (''table'', s)"

text \<open>
  The loop of \<open>Routes\<close>: \<open>routes\<close> starts as the empty, non-nil slice and gets one map
  appended for each column, in the order of the range.
\<close>

fun Routes_loop :: "ColumnDefinition list \<Rightarrow> (string \<rightharpoonup> string) list \<Rightarrow> (string \<rightharpoonup> string) list" where
  "Routes_loop [] routes = routes"
| "Routes_loop (col # cols) routes =
     Routes_loop cols
       (routes @ [[''id'' \<mapsto> ''column'', ''name'' \<mapsto> Name col, ''type'' \<mapsto> Type col, ''op'' \<mapsto> ''0'']])"

definition Routes :: "('s, 'c, 'v) tablePluginImpl \<Rightarrow> 's \<Rightarrow> ExtensionPluginResponse \<times> 's" where
  "Routes t s = (case Columns (plugin t) s of (cols, s') \<Rightarrow> (Some (Routes_loop cols []), s'))"

definition Ping :: "('s, 'c, 'v) tablePluginImpl \<Rightarrow> 's \<Rightarrow> ExtensionStatus \<times> 's" where
  "Ping t s = (StatusOK, s)"

text \<open>
  \<open>Call\<close>, case \<open>"generate"\<close>, from the call of \<open>Generate\<close> on: what runs when the context
  is absent or was decoded without error.
\<close>

definition Call_generate ::
  "('s, 'c, 'v) tablePluginImpl \<Rightarrow> 'c \<Rightarrow> 'v option \<Rightarrow> 's \<Rightarrow> ExtensionResponse \<times> 's" where
  "Call_generate t ctx queryContext s =
     (case Generate (plugin t) ctx queryContext s of
        ((rows, Some err), s') \<Rightarrow>
          (\<lparr>Status = Some \<lparr>Code = 1, Message = ''error generating table: '' @ Error err\<rparr>,
            Response = None\<rparr>, s')
      | ((rows, None), s') \<Rightarrow>
          (\<lparr>Status = Some StatusOK, Response = rows\<rparr>, s'))"

text \<open>
  \<open>Call\<close>. \<open>json.Unmarshal\<close> belongs to Go's standard library and is a parameter: given
  the bytes and the value the target pointer holds, it returns the value the target
  holds afterwards and the error. The target \<open>queryContext\<close> is declared without a
  value, so it holds \<open>nil\<close> when \<open>json.Unmarshal\<close> is called.
\<close>

definition Call ::
  "(string \<Rightarrow> 'v option \<Rightarrow> 'v option \<times> error option) \<Rightarrow> ('s, 'c, 'v) tablePluginImpl \<Rightarrow> 'c \<Rightarrow>
     ExtensionPluginRequest \<Rightarrow> 's \<Rightarrow> ExtensionResponse \<times> 's" where
  "Call json_Unmarshal t ctx request s =
     (if map_index request ''action'' = ''generate'' then
        (case request ''context'' of
           Some ctxJSON \<Rightarrow>
             (case json_Unmarshal ctxJSON None of
                (queryContext, Some err) \<Rightarrow>
                  (\<lparr>Status = Some \<lparr>Code = 1, Message = ''error parsing context JSON: '' @ Error err\<rparr>,
                    Response = None\<rparr>, s)
              | (queryContext, None) \<Rightarrow> Call_generate t ctx queryContext s)
         | None \<Rightarrow> Call_generate t ctx None s)
      else if map_index request ''action'' = ''columns'' then
        (case Routes t s of (routes, s') \<Rightarrow> (\<lparr>Status = Some StatusOK, Response = routes\<rparr>, s'))
      else
        (\<lparr>Status = Some \<lparr>Code = 1, Message = ''unknown action: '' @ map_index request ''action''\<rparr>,
          Response = None\<rparr>, s))"

definition Shutdown :: "('s, 'c, 'v) tablePluginImpl \<Rightarrow> 's \<Rightarrow> 's" where
  "Shutdown t s = s"

subsection \<open>Example plugins\<close>

text \<open>
  Inputs at which the theorems below are instantiated. The state of both plugins is the
  list of the query contexts \<open>Generate\<close> has been called with, so a call of \<open>Generate\<close>
  shows in the state. \<open>example_Unmarshal\<close> stands for \<open>json.Unmarshal\<close> on a few texts: it
  rejects \<open>{bad json\<close> with the message Go gives for it and leaves the target as it was,
  decodes \<open>null\<close> to the nil value, and takes any other text as its own decoded value.
  \<open>failing_plugin\<close> returns rows together with its error.
\<close>

definition example_Unmarshal :: "string \<Rightarrow> string option \<Rightarrow> string option \<times> error option" where
  "example_Unmarshal data v =
     (if data = ''{bad json'' then
        (v, Some (errorString (''invalid character '' @ [CHR 0x27] @ ''b'' @ [CHR 0x27] @
                    '' looking for beginning of object key string'')))
      else if data = ''null'' then (None, None)
      else (Some data, None))"

definition example_plugin :: "(string option list, unit, string) TablePlugin" where
  "example_plugin =
     \<lparr>TableName = (\<lambda>s. (''example_table'', s)),
      Columns = (\<lambda>s. ([StringColumn ''col1'', IntegerColumn ''col2''], s)),
      Generate = (\<lambda>ctx queryContext s. ((Some [[''col1'' \<mapsto> ''a'']], None), s @ [queryContext]))\<rparr>"

definition failing_plugin :: "(string option list, unit, string) TablePlugin" where
  "failing_plugin =
     \<lparr>TableName = (\<lambda>s. (''failing_table'', s)),
      Columns = (\<lambda>s. ([StringColumn ''col1''], s)),
      Generate = (\<lambda>ctx queryContext s.
        ((Some [[''col1'' \<mapsto> ''partial'']], Some (errorString ''boom'')), s @ [queryContext]))\<rparr>"

section \<open>Properties\<close>

lemma Routes_loop_append:
  "Routes_loop cols routes =
     routes @ map (\<lambda>col. [''id'' \<mapsto> ''column'', ''name'' \<mapsto> Name col, ''type'' \<mapsto> Type col, ''op'' \<mapsto> ''0'']) cols"
  by (induction cols arbitrary: routes) simp_all

text \<open>
  C1: for every plugin, \<open>Routes\<close> returns one entry for each column that \<open>Columns\<close>
  returns, in the same order, and the entry of a column is the map with \<open>id\<close> "column",
  \<open>name\<close> the column's name, \<open>type\<close> the column's type as a string and \<open>op\<close> "0". The
  slice is never nil, and the plugin's state is the one \<open>Columns\<close> left.
\<close>

theorem Routes_columns:
  "Routes t s =
     (Some (map (\<lambda>col. [''id'' \<mapsto> ''column'', ''name'' \<mapsto> Name col, ''type'' \<mapsto> Type col, ''op'' \<mapsto> ''0''])
              (fst (Columns (plugin t) s))),
      snd (Columns (plugin t) s))"
  by (simp add: Routes_def Routes_loop_append split: prod.split)

theorem Routes_columns_witness:
  "Routes (NewTablePlugin example_plugin) [] =
     (Some [[''id'' \<mapsto> ''column'', ''name'' \<mapsto> ''col1'', ''type'' \<mapsto> ''TEXT'', ''op'' \<mapsto> ''0''],
            [''id'' \<mapsto> ''column'', ''name'' \<mapsto> ''col2'', ''type'' \<mapsto> ''INTEGER'', ''op'' \<mapsto> ''0'']],
      [])"
  using Routes_columns [of "NewTablePlugin example_plugin" "[]"]
  by (simp add: NewTablePlugin_def example_plugin_def StringColumn_def IntegerColumn_def
      ColumnTypeString_def ColumnTypeInteger_def)

text \<open>
  C2: a request whose \<open>action\<close> is "columns" is answered with the status \<open>StatusOK\<close>,
  whose code is 0, and with the payload \<open>Routes\<close> returns in the state the call started
  in. This holds for every request with that action, whatever its other keys are, and
  the answer is the same when the plugin's \<open>Generate\<close> is replaced by any other function.
\<close>

theorem Call_columns:
  assumes "request ''action'' = Some ''columns''"
  shows "Call json_Unmarshal t ctx request s =
           (\<lparr>Status = Some StatusOK, Response = fst (Routes t s)\<rparr>, snd (Routes t s))
         \<and> Code StatusOK = 0
         \<and> Call json_Unmarshal (t\<lparr>plugin := (plugin t)\<lparr>Generate := g\<rparr>\<rparr>) ctx request s =
             Call json_Unmarshal t ctx request s"
  using assms by (simp add: Call_def map_index_def Routes_def StatusOK_def split: prod.split)

theorem Call_columns_witness:
  "[''action'' \<mapsto> ''columns'', ''context'' \<mapsto> ''{bad json''] ''action'' = Some ''columns''
   \<and> Call example_Unmarshal (NewTablePlugin failing_plugin) ()
        [''action'' \<mapsto> ''columns'', ''context'' \<mapsto> ''{bad json''] [] =
      (\<lparr>Status = Some \<lparr>Code = 0, Message = ''''\<rparr>,
        Response = Some [[''id'' \<mapsto> ''column'', ''name'' \<mapsto> ''col1'', ''type'' \<mapsto> ''TEXT'', ''op'' \<mapsto> ''0'']]\<rparr>,
       [])"
  using Call_columns [where request = "[''action'' \<mapsto> ''columns'', ''context'' \<mapsto> ''{bad json'']"
      and json_Unmarshal = example_Unmarshal and t = "NewTablePlugin failing_plugin"
      and ctx = "()" and s = "[]" and g = "Generate example_plugin"]
  by (simp add: Routes_def NewTablePlugin_def failing_plugin_def StringColumn_def
      ColumnTypeString_def StatusOK_def)

text \<open>
  C3: a "generate" request whose \<open>context\<close> is present and is rejected by
  \<open>json.Unmarshal\<close> with the error \<open>err\<close> is answered with code 1 and the message
  "error parsing context JSON: " followed by the text of \<open>err\<close>. \<open>Generate\<close> is not
  invoked: the state of the plugin, whatever plugin it is, is the one the call started
  in, and the answer is the same when \<open>Generate\<close> is replaced by any other function.
\<close>

theorem Call_generate_context_parse_error:
  assumes "request ''action'' = Some ''generate''"
    and "request ''context'' = Some ctxJSON"
    and "json_Unmarshal ctxJSON None = (v, Some err)"
  shows "Call json_Unmarshal t ctx request s =
           (\<lparr>Status = Some \<lparr>Code = 1, Message = ''error parsing context JSON: '' @ Error err\<rparr>,
             Response = None\<rparr>, s)
         \<and> Call json_Unmarshal (t\<lparr>plugin := (plugin t)\<lparr>Generate := g\<rparr>\<rparr>) ctx request s =
             Call json_Unmarshal t ctx request s"
  using assms by (simp add: Call_def map_index_def)

theorem Call_generate_context_parse_error_witness:
  "[''action'' \<mapsto> ''generate'', ''context'' \<mapsto> ''{bad json''] ''action'' = Some ''generate''
   \<and> [''action'' \<mapsto> ''generate'', ''context'' \<mapsto> ''{bad json''] ''context'' = Some ''{bad json''
   \<and> example_Unmarshal ''{bad json'' None =
        (None, Some (errorString (''invalid character '' @ [CHR 0x27] @ ''b'' @ [CHR 0x27] @
                       '' looking for beginning of object key string'')))
   \<and> Call example_Unmarshal (NewTablePlugin example_plugin) ()
        [''action'' \<mapsto> ''generate'', ''context'' \<mapsto> ''{bad json''] [] =
      (\<lparr>Status = Some \<lparr>Code = 1,
          Message = ''error parsing context JSON: invalid character '' @ [CHR 0x27] @ ''b'' @
                    [CHR 0x27] @ '' looking for beginning of object key string''\<rparr>,
        Response = None\<rparr>,
       [])"
  using Call_generate_context_parse_error
      [where request = "[''action'' \<mapsto> ''generate'', ''context'' \<mapsto> ''{bad json'']"
        and ctxJSON = "''{bad json''" and json_Unmarshal = example_Unmarshal and v = None
        and err = "errorString (''invalid character '' @ [CHR 0x27] @ ''b'' @ [CHR 0x27] @
                       '' looking for beginning of object key string'')"
        and t = "NewTablePlugin example_plugin" and ctx = "()" and s = "[]"
        and g = "Generate failing_plugin"]
  by (simp add: example_Unmarshal_def)

text \<open>
  C4: a "generate" request whose context is absent or decodes without error, and for
  which \<open>Generate\<close>, called with the decoded context, returns \<open>rows\<close> and no error, is
  answered with the status \<open>StatusOK\<close>, whose code is 0, and with exactly \<open>rows\<close> as payload.
\<close>

theorem Call_generate_rows:
  assumes "request ''action'' = Some ''generate''"
    and "(case request ''context'' of None \<Rightarrow> (None, None)
          | Some ctxJSON \<Rightarrow> json_Unmarshal ctxJSON None) = (queryContext, None)"
    and "Generate (plugin t) ctx queryContext s = ((rows, None), s')"
  shows "Call json_Unmarshal t ctx request s = (\<lparr>Status = Some StatusOK, Response = rows\<rparr>, s')
         \<and> Code StatusOK = 0"
  using assms
  by (auto simp add: Call_def Call_generate_def map_index_def StatusOK_def split: option.splits)

theorem Call_generate_rows_witness:
  "[''action'' \<mapsto> ''generate'', ''context'' \<mapsto> ''{}''] ''action'' = Some ''generate''
   \<and> (case [''action'' \<mapsto> ''generate'', ''context'' \<mapsto> ''{}''] ''context'' of
         None \<Rightarrow> (None, None)
       | Some ctxJSON \<Rightarrow> example_Unmarshal ctxJSON None) = (Some ''{}'', None)
   \<and> Generate (plugin (NewTablePlugin example_plugin)) () (Some ''{}'') [] =
        ((Some [[''col1'' \<mapsto> ''a'']], None), [Some ''{}''])
   \<and> Call example_Unmarshal (NewTablePlugin example_plugin) ()
        [''action'' \<mapsto> ''generate'', ''context'' \<mapsto> ''{}''] [] =
      (\<lparr>Status = Some \<lparr>Code = 0, Message = ''''\<rparr>, Response = Some [[''col1'' \<mapsto> ''a'']]\<rparr>,
       [Some ''{}''])"
  using Call_generate_rows
      [where request = "[''action'' \<mapsto> ''generate'', ''context'' \<mapsto> ''{}'']"
        and json_Unmarshal = example_Unmarshal and queryContext = "Some ''{}''"
        and t = "NewTablePlugin example_plugin" and ctx = "()" and s = "[]"
        and rows = "Some [[''col1'' \<mapsto> ''a'']]" and s' = "[Some ''{}'']"]
  by (simp add: example_Unmarshal_def NewTablePlugin_def example_plugin_def StatusOK_def)

text \<open>
  C5: a "generate" request without the key \<open>context\<close> calls \<open>Generate\<close> with the nil
  query context, and \<open>json.Unmarshal\<close> plays no part. The answer is the one built from
  what \<open>Generate\<close> returns for nil: its rows with the status \<open>StatusOK\<close> when it returns
  no error, and its own error otherwise. The missing context is never an error by itself.
\<close>

theorem Call_generate_no_context:
  assumes "request ''action'' = Some ''generate''"
    and "request ''context'' = None"
  shows "Call json_Unmarshal t ctx request s =
           (case Generate (plugin t) ctx None s of
              ((rows, None), s') \<Rightarrow> (\<lparr>Status = Some StatusOK, Response = rows\<rparr>, s')
            | ((rows, Some err), s') \<Rightarrow>
                (\<lparr>Status = Some \<lparr>Code = 1, Message = ''error generating table: '' @ Error err\<rparr>,
                  Response = None\<rparr>, s'))"
  using assms
  by (simp add: Call_def Call_generate_def map_index_def split: prod.split option.split)

theorem Call_generate_no_context_witness:
  "[''action'' \<mapsto> ''generate''] ''action'' = Some ''generate''
   \<and> [''action'' \<mapsto> ''generate''] ''context'' = None
   \<and> Call example_Unmarshal (NewTablePlugin example_plugin) () [''action'' \<mapsto> ''generate''] [] =
      (\<lparr>Status = Some \<lparr>Code = 0, Message = ''''\<rparr>, Response = Some [[''col1'' \<mapsto> ''a'']]\<rparr>,
       [None])"
  using Call_generate_no_context
      [where request = "[''action'' \<mapsto> ''generate'']" and json_Unmarshal = example_Unmarshal
        and t = "NewTablePlugin example_plugin" and ctx = "()" and s = "[]"]
  by (simp add: NewTablePlugin_def example_plugin_def StatusOK_def)

text \<open>
  C6: a "generate" request whose context is absent or decodes without error, and for
  which \<open>Generate\<close> returns the error \<open>err\<close> (with any rows), is answered with code 1 and
  the message "error generating table: " followed by the text of \<open>err\<close>.
\<close>

theorem Call_generate_error:
  assumes "request ''action'' = Some ''generate''"
    and "(case request ''context'' of None \<Rightarrow> (None, None)
          | Some ctxJSON \<Rightarrow> json_Unmarshal ctxJSON None) = (queryContext, None)"
    and "Generate (plugin t) ctx queryContext s = ((rows, Some err), s')"
  shows "Call json_Unmarshal t ctx request s =
           (\<lparr>Status = Some \<lparr>Code = 1, Message = ''error generating table: '' @ Error err\<rparr>,
             Response = None\<rparr>, s')"
  using assms
  by (auto simp add: Call_def Call_generate_def map_index_def split: option.splits)

theorem Call_generate_error_witness:
  "[''action'' \<mapsto> ''generate'', ''context'' \<mapsto> ''null''] ''action'' = Some ''generate''
   \<and> (case [''action'' \<mapsto> ''generate'', ''context'' \<mapsto> ''null''] ''context'' of
         None \<Rightarrow> (None, None)
       | Some ctxJSON \<Rightarrow> example_Unmarshal ctxJSON None) = (None, None)
   \<and> Generate (plugin (NewTablePlugin failing_plugin)) () None [] =
        ((Some [[''col1'' \<mapsto> ''partial'']], Some (errorString ''boom'')), [None])
   \<and> Call example_Unmarshal (NewTablePlugin failing_plugin) ()
        [''action'' \<mapsto> ''generate'', ''context'' \<mapsto> ''null''] [] =
      (\<lparr>Status = Some \<lparr>Code = 1, Message = ''error generating table: boom''\<rparr>, Response = None\<rparr>,
       [None])"
  using Call_generate_error
      [where request = "[''action'' \<mapsto> ''generate'', ''context'' \<mapsto> ''null'']"
        and json_Unmarshal = example_Unmarshal and queryContext = None
        and t = "NewTablePlugin failing_plugin" and ctx = "()" and s = "[]"
        and rows = "Some [[''col1'' \<mapsto> ''partial'']]" and err = "errorString ''boom''"
        and s' = "[None]"]
  by (simp add: example_Unmarshal_def NewTablePlugin_def failing_plugin_def)

text \<open>
  C7: a request whose \<open>action\<close> is neither "columns" nor "generate" is answered with
  code 1 and the message "unknown action: " followed by the action, where a request
  without the key \<open>action\<close> has the empty string as its action. The plugin is not called.
\<close>

theorem Call_unknown_action:
  assumes "request ''action'' \<noteq> Some ''columns''"
    and "request ''action'' \<noteq> Some ''generate''"
  shows "Call json_Unmarshal t ctx request s =
           (\<lparr>Status = Some \<lparr>Code = 1,
               Message = ''unknown action: '' @ (case request ''action'' of None \<Rightarrow> '''' | Some a \<Rightarrow> a)\<rparr>,
             Response = None\<rparr>, s)"
  using assms by (auto simp add: Call_def map_index_def split: option.splits)

theorem Call_unknown_action_witness:
  "[''action'' \<mapsto> ''frobnicate''] ''action'' \<noteq> Some ''columns''
   \<and> [''action'' \<mapsto> ''frobnicate''] ''action'' \<noteq> Some ''generate''
   \<and> Call example_Unmarshal (NewTablePlugin example_plugin) () [''action'' \<mapsto> ''frobnicate''] [] =
      (\<lparr>Status = Some \<lparr>Code = 1, Message = ''unknown action: frobnicate''\<rparr>, Response = None\<rparr>, [])
   \<and> (Map.empty :: string \<rightharpoonup> string) ''action'' \<noteq> Some ''columns''
   \<and> (Map.empty :: string \<rightharpoonup> string) ''action'' \<noteq> Some ''generate''
   \<and> Call example_Unmarshal (NewTablePlugin example_plugin) () Map.empty [] =
      (\<lparr>Status = Some \<lparr>Code = 1, Message = ''unknown action: ''\<rparr>, Response = None\<rparr>, [])"
  using Call_unknown_action
      [where request = "[''action'' \<mapsto> ''frobnicate'']" and json_Unmarshal = example_Unmarshal
        and t = "NewTablePlugin example_plugin" and ctx = "()" and s = "[]"]
    Call_unknown_action
      [where request = Map.empty and json_Unmarshal = example_Unmarshal
        and t = "NewTablePlugin example_plugin" and ctx = "()" and s = "[]"]
  by simp

text \<open>
  C8: \<open>Ping\<close> returns the status with code 0 and the empty message, for every plugin
  and in every state, and leaves the state as it is.
\<close>

theorem Ping_StatusOK:
  "Ping t s = (\<lparr>Code = 0, Message = ''''\<rparr>, s)"
  by (simp add: Ping_def StatusOK_def)

text \<open>
  C9: \<open>Name\<close> returns what the wrapped plugin's \<open>TableName\<close> returns, \<open>RegistryName\<close>
  returns "table", and the plugin wrapped by \<open>NewTablePlugin\<close> is the one given. Neither
  method has an error result.
\<close>

theorem Name_RegistryName:
  "tablePluginImpl_Name t s = TableName (plugin t) s
   \<and> RegistryName t s = (''table'', s)
   \<and> plugin (NewTablePlugin p) = p"
  by (simp add: tablePluginImpl_Name_def RegistryName_def NewTablePlugin_def)

text \<open>
  C10: a response of \<open>Call\<close> whose status code is not 0 has no payload.
\<close>

theorem Call_error_no_payload:
  assumes "Call json_Unmarshal t ctx request s = (resp, s')"
    and "Status resp = Some st"
    and "Code st \<noteq> 0"
  shows "Response resp = None"
  using assms
  by (auto simp add: Call_def Call_generate_def Routes_def StatusOK_def
      split: if_splits option.splits prod.splits)

theorem Call_error_no_payload_witness:
  "Call example_Unmarshal (NewTablePlugin failing_plugin) () [''action'' \<mapsto> ''generate''] [] =
     (\<lparr>Status = Some \<lparr>Code = 1, Message = ''error generating table: boom''\<rparr>, Response = None\<rparr>,
      [None])
   \<and> Status (fst (Call example_Unmarshal (NewTablePlugin failing_plugin) ()
                    [''action'' \<mapsto> ''generate''] [])) =
       Some \<lparr>Code = 1, Message = ''error generating table: boom''\<rparr>
   \<and> Code \<lparr>Code = 1, Message = ''error generating table: boom''\<rparr> \<noteq> 0
   \<and> Response (fst (Call example_Unmarshal (NewTablePlugin failing_plugin) ()
                      [''action'' \<mapsto> ''generate''] [])) = None"
proof -
  have c: "Call example_Unmarshal (NewTablePlugin failing_plugin) () [''action'' \<mapsto> ''generate''] [] =
     (\<lparr>Status = Some \<lparr>Code = 1, Message = ''error generating table: boom''\<rparr>, Response = None\<rparr>,
      [None])"
    by (simp add: Call_def Call_generate_def map_index_def NewTablePlugin_def failing_plugin_def)
  have st: "Status (fst (Call example_Unmarshal (NewTablePlugin failing_plugin) ()
                    [''action'' \<mapsto> ''generate''] [])) =
       Some \<lparr>Code = 1, Message = ''error generating table: boom''\<rparr>"
    by (simp add: c)
  have nz: "Code \<lparr>Code = 1, Message = ''error generating table: boom''\<rparr> \<noteq> 0"
    by simp
  have r: "Response (fst (Call example_Unmarshal (NewTablePlugin failing_plugin) ()
                      [''action'' \<mapsto> ''generate''] [])) = None"
    by (rule Call_error_no_payload [OF surjective_pairing st nz])
  show ?thesis using c st nz r by simp
qed

end
